theory Spec2Isabelle
  imports Main
begin

section \<open>The request handler of \<^verbatim>\<open>server.py\<close>\<close>

text \<open>
  \<^verbatim>\<open>server.py\<close> subclasses the standard library's \<^verbatim>\<open>SimpleHTTPRequestHandler\<close> and
  overrides one method, \<^verbatim>\<open>end_headers\<close>. The model keeps the two attributes of a handler
  object that the method touches: the buffer of header lines not yet sent, and the bytes
  already written to the client (\<^verbatim>\<open>wfile\<close>).
\<close>

datatype chunk =
    StatusLine nat
  | HeaderLine string string
  | BlankLine
  | Payload string

record handler =
  headers_buffer :: "chunk list"
  wfile :: "chunk list"

text \<open>
  The inherited methods the override calls. \<^verbatim>\<open>send_header\<close> queues one header line;
  the base class's \<^verbatim>\<open>end_headers\<close> ends the header block with the blank line, writes the
  buffer to the client and empties it (responses to HTTP/1.x requests).
\<close>

definition send_response_only :: "handler \<Rightarrow> nat \<Rightarrow> handler" where
  "send_response_only h code = h\<lparr>headers_buffer := headers_buffer h @ [StatusLine code]\<rparr>"

definition send_header :: "handler \<Rightarrow> string \<Rightarrow> string \<Rightarrow> handler" where
  "send_header h keyword val = h\<lparr>headers_buffer := headers_buffer h @ [HeaderLine keyword val]\<rparr>"

definition super_end_headers :: "handler \<Rightarrow> handler" where
  "super_end_headers h =
     h\<lparr>wfile := wfile h @ headers_buffer h @ [BlankLine], headers_buffer := []\<rparr>"

definition wfile_write :: "handler \<Rightarrow> string \<Rightarrow> handler" where
  "wfile_write h s = h\<lparr>wfile := wfile h @ [Payload s]\<rparr>"

text \<open>
  \<^verbatim>\<open>
  def end_headers(self):
      self.send_header('Access-Control-Allow-Origin', '*')
      self.send_header('Access-Control-Allow-Methods', 'GET, POST, OPTIONS')
      self.send_header('Access-Control-Allow-Headers', 'Content-Type')
      super().end_headers()
  \<close>
\<close>

definition end_headers :: "handler \<Rightarrow> handler" where
  "end_headers self =
     (let h1 = send_header self ''Access-Control-Allow-Origin'' ''*'';
          h2 = send_header h1 ''Access-Control-Allow-Methods'' ''GET, POST, OPTIONS'';
          h3 = send_header h2 ''Access-Control-Allow-Headers'' ''Content-Type''
      in super_end_headers h3)"

text \<open>
  What the base class decides for a request is not in the repository: the status, the
  headers of its own (\<^verbatim>\<open>Server\<close>, \<^verbatim>\<open>Date\<close>, \<^verbatim>\<open>Content-type\<close>, ...) and the body it
  sends for a request, given the directory it serves. It is a parameter of the model, of
  type \<open>static_handler\<close>. Whatever it decides, the library sends it in the same way: the
  status line, each header through \<^verbatim>\<open>send_header\<close>, then \<^verbatim>\<open>self.end_headers()\<close>, which
  is the override above, then the body.
\<close>

record request =
  command :: string
  path :: string

record reply =
  status :: nat
  headers :: "(string \<times> string) list"
  body :: string

type_synonym static_handler = "string \<Rightarrow> request \<Rightarrow> reply"

definition send_headers :: "handler \<Rightarrow> (string \<times> string) list \<Rightarrow> handler" where
  "send_headers h kvs = foldl (\<lambda>h' (k, v). send_header h' k v) h kvs"

definition handle_one_request :: "static_handler \<Rightarrow> string \<Rightarrow> request \<Rightarrow> chunk list" where
  "handle_one_request static directory req =
     (let r = static directory req;
          h0 = \<lparr>headers_buffer = [], wfile = []\<rparr>;
          h1 = send_response_only h0 (status r);
          h2 = send_headers h1 (headers r);
          h3 = end_headers h2
      in wfile (wfile_write h3 (body r)))"

section \<open>The process\<close>

text \<open>\<^verbatim>\<open>PORT = 3000\<close>\<close>

definition PORT :: nat where
  "PORT = 3000"

text \<open>Python's \<^verbatim>\<open>str\<close> on a non-negative integer, as the f-strings use it on \<^verbatim>\<open>PORT\<close>.\<close>

fun str :: "nat \<Rightarrow> string" where
  "str n = (if n < 10 then [''0123456789'' ! n]
            else str (n div 10) @ [''0123456789'' ! (n mod 10)])"

declare str.simps [simp del]

text \<open>
  The texts the script prints, as the bytes of the source file (the pictographs are UTF-8
  sequences), and the URL it opens.
\<close>

definition title_line :: string where
  "title_line = [CHR 0xF0, CHR 0x9F, CHR 0x9A, CHR 0x80] @ '' AP Government Quiz Tool Server''"

definition serving_line :: string where
  "serving_line =
     [CHR 0xF0, CHR 0x9F, CHR 0x93, CHR 0x8D] @ '' Serving at: http://localhost:'' @ str PORT"

definition directory_line :: "string \<Rightarrow> string" where
  "directory_line d = [CHR 0xF0, CHR 0x9F, CHR 0x93, CHR 0x81] @ '' Directory: '' @ d"

definition browser_line :: string where
  "browser_line = [CHR 0xF0, CHR 0x9F, CHR 0x8C, CHR 0x90] @ '' Opening browser...''"

definition press_line :: string where
  "press_line =
     [CHR 0xE2, CHR 0x8F, CHR 0xB9, CHR 0xEF, CHR 0xB8, CHR 0x8F] @
     ''  Press Ctrl+C to stop the server''"

definition stopped_line :: string where
  "stopped_line = CHR 0x0A # [CHR 0xF0, CHR 0x9F, CHR 0x9B, CHR 0x91] @ '' Server stopped''"

definition root_url :: string where
  "root_url = ''http://localhost:'' @ str PORT"

subsection \<open>The world around the process\<close>

text \<open>
  An exception a library call can raise into \<^verbatim>\<open>main\<close>, and the ways a piece of code can
  complete: it returns, it raises, it exits the interpreter (\<^verbatim>\<open>sys.exit\<close>, which unwinds
  like an exception), or it is still blocked in the serve loop.
\<close>

datatype error = OSError | KeyboardInterrupt

datatype completion = Returns | Raises error | Exits int | Blocks

text \<open>
  The library calls \<^verbatim>\<open>main\<close> makes before it serves, in the order of the source: the
  directory change, the construction of the server (which binds and listens), the five
  prints, and the browser launch.
\<close>

datatype call = AtChdir | AtBind | AtPrint nat | AtOpen

datatype serve_event = Request request | Interrupt

text \<open>
  A run is determined by its world: where the script lies
  (\<^verbatim>\<open>Path(__file__).parent\<close>), the directory the process was started in, its arguments
  and environment, what the base handler answers, which of the calls made while starting
  raises (a missing directory, a port in use, Ctrl+C), and what arrives once
  \<^verbatim>\<open>serve_forever\<close> waits: requests, and possibly Ctrl+C.
\<close>

record world =
  script_dir :: string
  start_dir :: string
  argv :: "string list"
  environ :: "string \<rightharpoonup> string"
  base_handler :: static_handler
  fault :: "call \<Rightarrow> error option"
  incoming :: "serve_event list"

subsection \<open>The state of the process\<close>

datatype event =
    Chdir string
  | Bind string nat
  | Print string
  | Open string
  | ServeForever
  | Handle request string
  | Close

text \<open>
  The state holds what the calls have achieved (the working directory, the lines on
  standard output, the listening socket, the URLs handed to the browser, the responses
  sent) and, in \<open>trace\<close>, the calls made so far, in order, whether they succeeded or not:
  \<open>Handle r d\<close> is the handling of request \<open>r\<close> by a handler serving directory \<open>d\<close>.
\<close>

record proc =
  cwd :: string
  stdout :: "string list"
  listening :: "(string \<times> nat) option"
  browser :: "string list"
  responses :: "chunk list list"
  trace :: "event list"

definition initial :: "world \<Rightarrow> proc" where
  "initial w =
     \<lparr>cwd = start_dir w, stdout = [], listening = None, browser = [], responses = [],
      trace = []\<rparr>"

type_synonym step = "proc \<Rightarrow> proc \<times> completion"

definition log :: "event \<Rightarrow> proc \<Rightarrow> proc" where
  "log e p = p\<lparr>trace := trace p @ [e]\<rparr>"

text \<open>Statements in sequence: the first that does not return ends the sequence.\<close>

fun run :: "step list \<Rightarrow> step" where
  "run [] p = (p, Returns)"
| "run (s # ss) p = (case s p of (p', c) \<Rightarrow> if c = Returns then run ss p' else (p', c))"

subsection \<open>The library calls\<close>

text \<open>
  A library call is made (and logged); if it raises, it has no effect, otherwise it has
  its effect and returns. The first argument is the exception the world holds for the
  call, if any. The world describes what goes wrong while the process starts; the two
  calls of the \<^verbatim>\<open>except\<close> branch (the print of the stop notice and \<^verbatim>\<open>sys.exit\<close>) are
  taken to complete. A directory is denoted by its path: \<^verbatim>\<open>os.getcwd\<close> returns the path
  last given to a successful \<^verbatim>\<open>os.chdir\<close>.
\<close>

definition lib_call :: "error option \<Rightarrow> event \<Rightarrow> (proc \<Rightarrow> proc) \<Rightarrow> step" where
  "lib_call f ev effect p =
     (case f of Some e \<Rightarrow> (log ev p, Raises e) | None \<Rightarrow> (effect (log ev p), Returns))"

definition os_chdir :: "error option \<Rightarrow> string \<Rightarrow> step" where
  "os_chdir f d = lib_call f (Chdir d) (\<lambda>p. p\<lparr>cwd := d\<rparr>)"

definition os_getcwd :: "proc \<Rightarrow> string" where
  "os_getcwd p = cwd p"

definition TCPServer :: "error option \<Rightarrow> string \<Rightarrow> nat \<Rightarrow> step" where
  "TCPServer f host port = lib_call f (Bind host port) (\<lambda>p. p\<lparr>listening := Some (host, port)\<rparr>)"

definition print :: "error option \<Rightarrow> string \<Rightarrow> step" where
  "print f s = lib_call f (Print s) (\<lambda>p. p\<lparr>stdout := stdout p @ [s]\<rparr>)"

definition webbrowser_open :: "error option \<Rightarrow> string \<Rightarrow> step" where
  "webbrowser_open f u = lib_call f (Open u) (\<lambda>p. p\<lparr>browser := browser p @ [u]\<rparr>)"

definition sys_exit :: "int \<Rightarrow> step" where
  "sys_exit n p = (p, Exits n)"

definition server_close :: "proc \<Rightarrow> proc" where
  "server_close p = log Close (p\<lparr>listening := None\<rparr>)"

text \<open>
  \<^verbatim>\<open>serve_forever\<close> handles the requests that arrive one at a time, each with a new
  handler, which serves the working directory of that moment (\<^verbatim>\<open>os.getcwd()\<close>), until
  Ctrl+C raises \<^verbatim>\<open>KeyboardInterrupt\<close> out of it. When nothing more arrives it goes on
  waiting.
\<close>

fun serve_loop :: "static_handler \<Rightarrow> serve_event list \<Rightarrow> step" where
  "serve_loop answer [] p = (p, Blocks)"
| "serve_loop answer (Request r # evs) p =
     (let directory = os_getcwd p
      in serve_loop answer evs
           (log (Handle r directory)
              (p\<lparr>responses := responses p @ [handle_one_request answer directory r]\<rparr>)))"
| "serve_loop answer (Interrupt # evs) p = (p, Raises KeyboardInterrupt)"

definition serve_forever :: "world \<Rightarrow> step" where
  "serve_forever w p = serve_loop (base_handler w) (incoming w) (log ServeForever p)"

text \<open>
  \<^verbatim>\<open>with socketserver.TCPServer(("", PORT), CustomHTTPRequestHandler) as httpd: ...\<close>
  If the constructor raises, the block is not entered. Otherwise the block runs, and when
  it is left, in whatever way, the server's \<^verbatim>\<open>__exit__\<close> closes the socket.
\<close>

definition with_TCPServer :: "error option \<Rightarrow> string \<Rightarrow> nat \<Rightarrow> step \<Rightarrow> step" where
  "with_TCPServer f host port block p =
     (case TCPServer f host port p of (p1, c1) \<Rightarrow>
        if c1 = Returns
        then (case block p1 of (p2, c2) \<Rightarrow>
                if c2 = Blocks then (p2, c2) else (server_close p2, c2))
        else (p1, c1))"

subsection \<open>\<^verbatim>\<open>main\<close>\<close>

text \<open>
  \<^verbatim>\<open>
  try:
      httpd.serve_forever()
  except KeyboardInterrupt:
      print(f"\n... Server stopped")
      sys.exit(0)
  \<close>
\<close>

definition try_serve_forever :: "world \<Rightarrow> step" where
  "try_serve_forever w p =
     (case serve_forever w p of (p', c) \<Rightarrow>
        if c = Raises KeyboardInterrupt
        then run [print None stopped_line, sys_exit 0] p'
        else (p', c))"

text \<open>
  \<^verbatim>\<open>
  def main():
      os.chdir(Path(__file__).parent)
      with socketserver.TCPServer(("", PORT), CustomHTTPRequestHandler) as httpd:
          print(f"... AP Government Quiz Tool Server")
          print(f"... Serving at: http://localhost:{PORT}")
          print(f"... Directory: {os.getcwd()}")
          print(f"... Opening browser...")
          print(f"...  Press Ctrl+C to stop the server")
          webbrowser.open(f'http://localhost:{PORT}')
          try: ...
  \<close>
\<close>

definition main :: "world \<Rightarrow> step" where
  "main w =
     run
       [os_chdir (fault w AtChdir) (script_dir w),
        with_TCPServer (fault w AtBind) '''' PORT
          (run
             [print (fault w (AtPrint 0)) title_line,
              print (fault w (AtPrint 1)) serving_line,
              (\<lambda>p. print (fault w (AtPrint 2)) (directory_line (os_getcwd p)) p),
              print (fault w (AtPrint 3)) browser_line,
              print (fault w (AtPrint 4)) press_line,
              webbrowser_open (fault w AtOpen) root_url,
              try_serve_forever w])]"

text \<open>
  \<^verbatim>\<open>if __name__ == "__main__": main()\<close>
  The interpreter ends with status 0 when \<^verbatim>\<open>main\<close> returns, with the status given to
  \<^verbatim>\<open>sys.exit\<close>, and with its default error report and a status other than 0 when an
  exception is not handled.
\<close>

datatype outcome = Exited int | Unhandled error | Running

fun finish :: "completion \<Rightarrow> outcome" where
  "finish Returns = Exited 0"
| "finish (Exits n) = Exited n"
| "finish (Raises e) = Unhandled e"
| "finish Blocks = Running"

fun exits_zero :: "outcome \<Rightarrow> bool" where
  "exits_zero (Exited n) = (n = 0)"
| "exits_zero (Unhandled e) = False"
| "exits_zero Running = False"

definition script :: "world \<Rightarrow> proc \<times> outcome" where
  "script w = (case main w (initial w) of (p, c) \<Rightarrow> (p, finish c))"

section \<open>Notions used to state the properties\<close>

text \<open>The requests that arrive before the first Ctrl+C: those the serve loop handles.\<close>

fun served :: "serve_event list \<Rightarrow> request list" where
  "served [] = []"
| "served (Request r # evs) = r # served evs"
| "served (Interrupt # evs) = []"

text \<open>The calls made while starting, in order, and the first of them that raises.\<close>

definition startup_calls :: "call list" where
  "startup_calls =
     [AtChdir, AtBind, AtPrint 0, AtPrint 1, AtPrint 2, AtPrint 3, AtPrint 4, AtOpen]"

fun first_raise :: "(call \<Rightarrow> error option) \<Rightarrow> call list \<Rightarrow> (call \<times> error) option" where
  "first_raise f [] = None"
| "first_raise f (c # cs) = (case f c of Some e \<Rightarrow> Some (c, e) | None \<Rightarrow> first_raise f cs)"

definition first_fault :: "world \<Rightarrow> (call \<times> error) option" where
  "first_fault w = first_raise (fault w) startup_calls"

fun is_Chdir :: "event \<Rightarrow> bool" where
  "is_Chdir (Chdir d) = True"
| "is_Chdir e = False"

fun is_Bind :: "event \<Rightarrow> bool" where
  "is_Bind (Bind h n) = True"
| "is_Bind e = False"

text \<open>
  A world to run the model on: the script lies in \<^verbatim>\<open>/srv/quiz\<close>, nothing fails while
  starting, and a request for \<^verbatim>\<open>/index.html\<close> arrives before Ctrl+C.
\<close>

definition example_world :: world where
  "example_world =
     \<lparr>script_dir = ''/srv/quiz'', start_dir = ''/home/user'', argv = [], environ = Map.empty,
      base_handler = (\<lambda>d r. \<lparr>status = 200, headers = [(''Content-type'', ''text/html'')],
                              body = d @ path r\<rparr>),
      fault = (\<lambda>c. None),
      incoming = [Request \<lparr>command = ''GET'', path = ''/index.html''\<rparr>, Interrupt]\<rparr>"

text \<open>
  The same world with the port taken, with the script's directory gone, and with Ctrl+C
  pressed while the third line is printed.
\<close>

definition port_in_use_world :: world where
  "port_in_use_world =
     example_world\<lparr>fault := (\<lambda>c. if c = AtBind then Some OSError else None)\<rparr>"

definition missing_directory_world :: world where
  "missing_directory_world =
     example_world\<lparr>fault := (\<lambda>c. if c = AtChdir then Some OSError else None)\<rparr>"

definition interrupted_startup_world :: world where
  "interrupted_startup_world =
     example_world\<lparr>fault := (\<lambda>c. if c = AtPrint 2 then Some KeyboardInterrupt else None)\<rparr>"

section \<open>Properties of the handler\<close>




lemma end_headers_buffer: "headers_buffer (end_headers h) = []"
  by (simp add: end_headers_def send_header_def super_end_headers_def)

section \<open>Properties of the process\<close>

lemma str_PORT: "str PORT = ''3000''"
  by (simp add: PORT_def str.simps)

lemmas lib_defs = lib_call_def os_chdir_def TCPServer_def print_def webbrowser_open_def
  sys_exit_def server_close_def log_def os_getcwd_def with_TCPServer_def

lemma serve_loop_eq:
  "serve_loop h evs p =
     (p\<lparr>responses := responses p @ map (handle_one_request h (cwd p)) (served evs),
        trace := trace p @ map (\<lambda>r. Handle r (cwd p)) (served evs)\<rparr>,
      if Interrupt \<in> set evs then Raises KeyboardInterrupt else Blocks)"
proof (induction h evs p rule: serve_loop.induct)
  case (1 h p) show ?case by simp
next
  case (2 h r evs p) then show ?case by (simp add: log_def os_getcwd_def Let_def)
next
  case (3 h evs p) show ?case by simp
qed

lemma first_fault_None:
  "first_fault w = None \<longleftrightarrow> fault w AtChdir = None \<and> fault w AtBind = None \<and>
     fault w (AtPrint 0) = None \<and> fault w (AtPrint 1) = None \<and> fault w (AtPrint 2) = None \<and>
     fault w (AtPrint 3) = None \<and> fault w (AtPrint 4) = None \<and> fault w AtOpen = None"
  by (simp add: first_fault_def startup_calls_def split: option.splits)


lemma script_serving:
  assumes "first_fault w = None"
  shows "script w =
    (if Interrupt \<in> set (incoming w)
     then (\<lparr>cwd = script_dir w,
            stdout = [title_line, serving_line, directory_line (script_dir w), browser_line,
                      press_line, stopped_line],
            listening = None, browser = [root_url],
            responses = map (handle_one_request (base_handler w) (script_dir w)) (served (incoming w)),
            trace = [Chdir (script_dir w), Bind '''' PORT, Print title_line, Print serving_line,
                     Print (directory_line (script_dir w)), Print browser_line, Print press_line,
                     Open root_url, ServeForever] @
                    map (\<lambda>r. Handle r (script_dir w)) (served (incoming w)) @
                    [Print stopped_line, Close]\<rparr>, Exited 0)
     else (\<lparr>cwd = script_dir w,
            stdout = [title_line, serving_line, directory_line (script_dir w), browser_line,
                      press_line],
            listening = Some ('''', PORT), browser = [root_url],
            responses = map (handle_one_request (base_handler w) (script_dir w)) (served (incoming w)),
            trace = [Chdir (script_dir w), Bind '''' PORT, Print title_line, Print serving_line,
                     Print (directory_line (script_dir w)), Print browser_line, Print press_line,
                     Open root_url, ServeForever] @
                    map (\<lambda>r. Handle r (script_dir w)) (served (incoming w))\<rparr>, Running))"
  using assms unfolding first_fault_None
  by (simp add: script_def main_def lib_defs initial_def try_serve_forever_def
      serve_forever_def serve_loop_eq)

lemma script_chdir_fails:
  assumes "fault w AtChdir = Some e"
  shows "script w =
    (\<lparr>cwd = start_dir w, stdout = [], listening = None, browser = [], responses = [],
      trace = [Chdir (script_dir w)]\<rparr>, Unhandled e)"
  using assms by (simp add: script_def main_def lib_defs initial_def)

lemma script_bind_fails:
  assumes "fault w AtChdir = None" and "fault w AtBind = Some e"
  shows "script w =
    (\<lparr>cwd = script_dir w, stdout = [], listening = None, browser = [], responses = [],
      trace = [Chdir (script_dir w), Bind '''' PORT]\<rparr>, Unhandled e)"
  using assms by (simp add: script_def main_def lib_defs initial_def)


lemma first_fault_chdir: "first_fault w = Some (AtChdir, e) \<longleftrightarrow> fault w AtChdir = Some e"
  by (auto simp: first_fault_def startup_calls_def split: option.splits)

lemma first_fault_bind:
  "first_fault w = Some (AtBind, e) \<longleftrightarrow> fault w AtChdir = None \<and> fault w AtBind = Some e"
  by (auto simp: first_fault_def startup_calls_def split: option.splits)

lemma first_fault_open:
  "first_fault w = Some (AtOpen, e) \<longleftrightarrow>
     fault w AtChdir = None \<and> fault w AtBind = None \<and> fault w (AtPrint 0) = None \<and>
     fault w (AtPrint 1) = None \<and> fault w (AtPrint 2) = None \<and> fault w (AtPrint 3) = None \<and>
     fault w (AtPrint 4) = None \<and> fault w AtOpen = Some e"
  by (auto simp: first_fault_def startup_calls_def split: option.splits)


lemma script_open_fails:
  assumes "first_fault w = Some (AtOpen, e)"
  shows "script w =
    (\<lparr>cwd = script_dir w,
      stdout = [title_line, serving_line, directory_line (script_dir w), browser_line,
                press_line],
      listening = None, browser = [], responses = [],
      trace = [Chdir (script_dir w), Bind '''' PORT, Print title_line, Print serving_line,
               Print (directory_line (script_dir w)), Print browser_line, Print press_line,
               Open root_url, Close]\<rparr>, Unhandled e)"
  using assms unfolding first_fault_open
  by (simp add: script_def main_def lib_defs initial_def)

lemma script_print_fails:
  assumes "first_fault w = Some (AtPrint i, e)"
  shows "\<exists>k. script w =
    (\<lparr>cwd = script_dir w,
      stdout = take k [title_line, serving_line, directory_line (script_dir w), browser_line,
                       press_line],
      listening = None, browser = [], responses = [],
      trace = [Chdir (script_dir w), Bind '''' PORT] @
              take (Suc k) [Print title_line, Print serving_line,
                 Print (directory_line (script_dir w)), Print browser_line, Print press_line] @
              [Close]\<rparr>, Unhandled e)"
proof -
  let ?R = "\<lambda>k. script w =
    (\<lparr>cwd = script_dir w,
      stdout = take k [title_line, serving_line, directory_line (script_dir w), browser_line,
                       press_line],
      listening = None, browser = [], responses = [],
      trace = [Chdir (script_dir w), Bind '''' PORT] @
              take (Suc k) [Print title_line, Print serving_line,
                 Print (directory_line (script_dir w)), Print browser_line, Print press_line] @
              [Close]\<rparr>, Unhandled e)"
  note ff = first_fault_def startup_calls_def
  note unfold = script_def main_def lib_defs initial_def
  from assms have ok: "fault w AtChdir = None" "fault w AtBind = None"
    by (auto simp: ff split: option.splits)
  show ?thesis
  proof (cases "fault w (AtPrint 0)")
    case (Some e0)
    with assms ok have "e0 = e" by (simp add: ff)
    with Some ok have "?R 0" by (simp add: unfold)
    then show ?thesis ..
  next
    case p0: None
    show ?thesis
    proof (cases "fault w (AtPrint 1)")
      case (Some e1)
      with assms ok p0 have "e1 = e" by (simp add: ff)
      with Some ok p0 have "?R 1" by (simp add: unfold)
      then show ?thesis ..
    next
      case p1: None
      show ?thesis
      proof (cases "fault w (AtPrint 2)")
        case (Some e2)
        with assms ok p0 p1 have "e2 = e" by (simp add: ff)
        with Some ok p0 p1 have "?R 2" by (simp add: unfold eval_nat_numeral)
        then show ?thesis ..
      next
        case p2: None
        show ?thesis
        proof (cases "fault w (AtPrint 3)")
          case (Some e3)
          with assms ok p0 p1 p2 have "e3 = e" by (simp add: ff)
          with Some ok p0 p1 p2 have "?R 3" by (simp add: unfold eval_nat_numeral)
          then show ?thesis ..
        next
          case p3: None
          show ?thesis
          proof (cases "fault w (AtPrint 4)")
            case (Some e4)
            with assms ok p0 p1 p2 p3 have "e4 = e" by (simp add: ff)
            with Some ok p0 p1 p2 p3 have "?R 4" by (simp add: unfold eval_nat_numeral)
            then show ?thesis ..
          next
            case p4: None
            with assms ok p0 p1 p2 p3 have False
              by (simp add: ff split: option.splits)
            then show ?thesis ..
          qed
        qed
      qed
    qed
  qed
qed


lemma script_cases [case_names serving chdir bind print launch]:
  obtains
    (serving) "first_fault w = None"
  | (chdir) e where "fault w AtChdir = Some e"
      and "script w =
        (\<lparr>cwd = start_dir w, stdout = [], listening = None, browser = [], responses = [],
          trace = [Chdir (script_dir w)]\<rparr>, Unhandled e)"
  | (bind) e where "fault w AtChdir = None" and "fault w AtBind = Some e"
      and "script w =
        (\<lparr>cwd = script_dir w, stdout = [], listening = None, browser = [], responses = [],
          trace = [Chdir (script_dir w), Bind '''' PORT]\<rparr>, Unhandled e)"
  | (print) i e k where "first_fault w = Some (AtPrint i, e)"
      and "script w =
        (\<lparr>cwd = script_dir w,
          stdout = take k [title_line, serving_line, directory_line (script_dir w),
                           browser_line, press_line],
          listening = None, browser = [], responses = [],
          trace = [Chdir (script_dir w), Bind '''' PORT] @
                  take (Suc k) [Print title_line, Print serving_line,
                     Print (directory_line (script_dir w)), Print browser_line,
                     Print press_line] @
                  [Close]\<rparr>, Unhandled e)"
  | (launch) e where "first_fault w = Some (AtOpen, e)"
      and "script w =
        (\<lparr>cwd = script_dir w,
          stdout = [title_line, serving_line, directory_line (script_dir w), browser_line,
                    press_line],
          listening = None, browser = [], responses = [],
          trace = [Chdir (script_dir w), Bind '''' PORT, Print title_line, Print serving_line,
                   Print (directory_line (script_dir w)), Print browser_line,
                   Print press_line, Open root_url, Close]\<rparr>, Unhandled e)"
proof (cases "first_fault w")
  case None
  then show ?thesis by (rule serving)
next
  case (Some ce)
  obtain c e where ce: "ce = (c, e)" by (cases ce)
  show ?thesis
  proof (cases c)
    case AtChdir
    with Some ce have *: "fault w AtChdir = Some e" by (simp add: first_fault_chdir)
    show ?thesis by (rule chdir [OF * script_chdir_fails [OF *]])
  next
    case AtBind
    with Some ce have *: "fault w AtChdir = None" "fault w AtBind = Some e"
      by (simp_all add: first_fault_bind)
    show ?thesis by (rule bind [OF * script_bind_fails [OF *]])
  next
    case (AtPrint i)
    with Some ce have *: "first_fault w = Some (AtPrint i, e)" by simp
    from script_print_fails [OF *] obtain k where "script w =
        (\<lparr>cwd = script_dir w,
          stdout = take k [title_line, serving_line, directory_line (script_dir w),
                           browser_line, press_line],
          listening = None, browser = [], responses = [],
          trace = [Chdir (script_dir w), Bind '''' PORT] @
                  take (Suc k) [Print title_line, Print serving_line,
                     Print (directory_line (script_dir w)), Print browser_line,
                     Print press_line] @
                  [Close]\<rparr>, Unhandled e)" ..
    with * show ?thesis by (rule print)
  next
    case AtOpen
    with Some ce have *: "first_fault w = Some (AtOpen, e)" by simp
    show ?thesis by (rule launch [OF * script_open_fails [OF *]])
  qed
qed

lemma reaches_serving:
  "ServeForever \<in> set (trace (fst (script w))) \<longleftrightarrow> first_fault w = None"
proof (cases w rule: script_cases)
  case serving
  then show ?thesis by (simp add: script_serving)
next
  case (chdir e)
  then show ?thesis by (simp add: first_fault_def startup_calls_def)
next
  case (bind e)
  then show ?thesis by (simp add: first_fault_def startup_calls_def)
next
  case (print i e k)
  then show ?thesis by (auto dest: in_set_takeD)
next
  case (launch e)
  then show ?thesis by simp
qed

lemma stopped_line_fresh:
  "stopped_line \<notin> set [title_line, serving_line, directory_line d, browser_line, press_line]"
  by (simp add: stopped_line_def title_line_def serving_line_def directory_line_def
      browser_line_def press_line_def)

lemma first_fault_incoming [simp]: "first_fault (w\<lparr>incoming := evs\<rparr>) = first_fault w"
  by (simp add: first_fault_def)





lemma no_Chdir_in_handles [simp]: "filter is_Chdir (map (\<lambda>r. Handle r d) rs) = []"
  by (induction rs) simp_all

lemma filter_take_none: "\<forall>x\<in>set xs. \<not> P x \<Longrightarrow> filter P (take k xs) = []"
  by (auto simp: filter_empty_conv dest: in_set_takeD)

lemma exits_zero_iff:
  "exits_zero (snd (script w)) \<longleftrightarrow> first_fault w = None \<and> Interrupt \<in> set (incoming w)"
proof (cases w rule: script_cases)
  case serving
  then show ?thesis by (simp add: script_serving)
next
  case (chdir e)
  then show ?thesis by (simp add: first_fault_def startup_calls_def)
next
  case (bind e)
  then show ?thesis by (simp add: first_fault_def startup_calls_def)
next
  case (print i e k)
  then show ?thesis by simp
next
  case (launch e)
  then show ?thesis by simp
qed

lemma example_world_starts: "first_fault example_world = None"
  by (simp add: first_fault_def startup_calls_def example_world_def)

lemma example_world_reaches_serving:
  "ServeForever \<in> set (trace (fst (script example_world)))"
  by (simp add: reaches_serving example_world_starts)

section \<open>The claims\<close>



text \<open>
  C3. When Ctrl+C arrives while the server is in its serve loop, the process prints the
  stop notice after the five startup lines, the listening socket is closed (the last two
  calls of the run are the print and the close), and the interpreter exits with status 0.
\<close>

theorem interrupt_clean_shutdown:
  assumes "ServeForever \<in> set (trace (fst (script w)))" and "Interrupt \<in> set (incoming w)"
  shows "snd (script w) = Exited 0 \<and>
         stdout (fst (script w)) =
           [title_line, serving_line, directory_line (script_dir w), browser_line, press_line,
            stopped_line] \<and>
         listening (fst (script w)) = None \<and>
         (\<exists>before. trace (fst (script w)) = before @ [Print stopped_line, Close])"
proof -
  from assms(1) have "first_fault w = None" by (simp add: reaches_serving)
  from script_serving [OF this] assms(2) show ?thesis by simp
qed

theorem interrupt_clean_shutdown_witness:
  "ServeForever \<in> set (trace (fst (script example_world))) \<and>
   Interrupt \<in> set (incoming example_world) \<and>
   snd (script example_world) = Exited 0 \<and>
   stdout (fst (script example_world)) =
     [title_line, serving_line, directory_line ''/srv/quiz'', browser_line, press_line,
      stopped_line] \<and>
   listening (fst (script example_world)) = None \<and>
   (\<exists>before. trace (fst (script example_world)) = before @ [Print stopped_line, Close])"
proof -
  have arrives: "Interrupt \<in> set (incoming example_world)"
    by (simp add: example_world_def)
  have dir: "script_dir example_world = ''/srv/quiz''"
    by (simp add: example_world_def)
  from interrupt_clean_shutdown [OF example_world_reaches_serving arrives]
    example_world_reaches_serving arrives
  show ?thesis by (simp add: dir)
qed

text \<open>
  C4. When the port is in use, the constructor of the server raises \<^verbatim>\<open>OSError\<close>: the run
  consists of the directory change and one bind, on port 3000 (no second attempt, no other
  port), nothing is printed, no socket is left listening, the exception is not handled and
  the exit status is not 0.
\<close>

theorem port_in_use_is_fatal:
  assumes "fault w AtChdir = None" and "fault w AtBind = Some OSError"
  shows "script w =
           (\<lparr>cwd = script_dir w, stdout = [], listening = None, browser = [], responses = [],
             trace = [Chdir (script_dir w), Bind '''' 3000]\<rparr>, Unhandled OSError) \<and>
         \<not> exits_zero (snd (script w))"
  using script_bind_fails [OF assms] by (simp add: PORT_def)

theorem port_in_use_is_fatal_witness:
  "fault port_in_use_world AtChdir = None \<and>
   fault port_in_use_world AtBind = Some OSError \<and>
   script port_in_use_world =
     (\<lparr>cwd = ''/srv/quiz'', stdout = [], listening = None, browser = [], responses = [],
       trace = [Chdir ''/srv/quiz'', Bind '''' 3000]\<rparr>, Unhandled OSError) \<and>
   \<not> exits_zero (snd (script port_in_use_world))"
proof -
  have ok: "fault port_in_use_world AtChdir = None"
    and busy: "fault port_in_use_world AtBind = Some OSError"
    by (simp_all add: port_in_use_world_def)
  have dir: "script_dir port_in_use_world = ''/srv/quiz''"
    by (simp add: port_in_use_world_def example_world_def)
  from port_in_use_is_fatal [OF ok busy] ok busy show ?thesis
    by (simp add: dir)
qed

text \<open>
  C5. In every run that reaches the serve loop, the first nine calls are, in this order:
  the change to the script's directory, the bind, the prints of the title, the URL, the
  working directory, the browser notice and the stop instruction, the browser launch, and
  the entry into \<^verbatim>\<open>serve_forever\<close>; these five lines are the first five on standard
  output.
\<close>

theorem startup_order:
  assumes "ServeForever \<in> set (trace (fst (script w)))"
  shows "take 9 (trace (fst (script w))) =
           [Chdir (script_dir w), Bind '''' PORT, Print title_line, Print serving_line,
            Print (directory_line (script_dir w)), Print browser_line, Print press_line,
            Open root_url, ServeForever] \<and>
         take 5 (stdout (fst (script w))) =
           [title_line, serving_line, directory_line (script_dir w), browser_line, press_line]"
proof -
  from assms have "first_fault w = None" by (simp add: reaches_serving)
  from script_serving [OF this] show ?thesis by simp
qed

theorem startup_order_witness:
  "ServeForever \<in> set (trace (fst (script example_world))) \<and>
   take 9 (trace (fst (script example_world))) =
     [Chdir ''/srv/quiz'', Bind '''' PORT, Print title_line, Print serving_line,
      Print (directory_line ''/srv/quiz''), Print browser_line, Print press_line,
      Open root_url, ServeForever] \<and>
   take 5 (stdout (fst (script example_world))) =
     [title_line, serving_line, directory_line ''/srv/quiz'', browser_line, press_line]"
proof -
  have dir: "script_dir example_world = ''/srv/quiz''"
    by (simp add: example_world_def)
  from startup_order [OF example_world_reaches_serving] example_world_reaches_serving
  show ?thesis by (simp add: dir)
qed







text \<open>
  C9. \<^verbatim>\<open>os.chdir\<close> is called exactly once in a run, as the very first call (so before the
  bind and before any request is accepted), with the directory of the script. When it
  succeeds, every request is handled from that directory and it is still the working
  directory when the run ends. When it raises, the exception is not handled: the run ends
  there, with nothing bound and nothing printed.
\<close>

theorem working_directory_set_once:
  "filter is_Chdir (trace (fst (script w))) = [Chdir (script_dir w)] \<and>
   (\<exists>rest. trace (fst (script w)) = Chdir (script_dir w) # rest) \<and>
   (\<forall>r d. Handle r d \<in> set (trace (fst (script w))) \<longrightarrow> d = script_dir w) \<and>
   (fault w AtChdir = None \<longrightarrow> cwd (fst (script w)) = script_dir w) \<and>
   (\<forall>e. fault w AtChdir = Some e \<longrightarrow>
      script w =
        (\<lparr>cwd = start_dir w, stdout = [], listening = None, browser = [], responses = [],
          trace = [Chdir (script_dir w)]\<rparr>, Unhandled e))"
proof (cases w rule: script_cases)
  case serving
  then have "fault w AtChdir = None" by (simp add: first_fault_None)
  with script_serving [OF serving] show ?thesis by auto
next
  case (chdir e)
  then show ?thesis by simp
next
  case (bind e)
  then show ?thesis by simp
next
  case (print i e k)
  then have "fault w AtChdir = None"
    by (auto simp: first_fault_def startup_calls_def split: option.splits)
  with print(2) show ?thesis by (auto simp: filter_take_none dest: in_set_takeD)
next
  case (launch e)
  then have "fault w AtChdir = None" by (simp add: first_fault_open)
  with launch(2) show ?thesis by simp
qed

theorem working_directory_set_once_witness:
  "fault example_world AtChdir = None \<and>
   cwd (fst (script example_world)) = ''/srv/quiz'' \<and>
   filter is_Chdir (trace (fst (script example_world))) = [Chdir ''/srv/quiz''] \<and>
   fault missing_directory_world AtChdir = Some OSError \<and>
   script missing_directory_world =
     (\<lparr>cwd = ''/home/user'', stdout = [], listening = None, browser = [], responses = [],
       trace = [Chdir ''/srv/quiz'']\<rparr>, Unhandled OSError)"
proof -
  have ok: "fault example_world AtChdir = None"
    and dir: "script_dir example_world = ''/srv/quiz''"
    by (simp_all add: example_world_def)
  have missing: "fault missing_directory_world AtChdir = Some OSError"
    and dirs: "script_dir missing_directory_world = ''/srv/quiz''"
      "start_dir missing_directory_world = ''/home/user''"
    by (simp_all add: missing_directory_world_def example_world_def)
  from working_directory_set_once [of example_world] ok
  have "cwd (fst (script example_world)) = ''/srv/quiz'' \<and>
    filter is_Chdir (trace (fst (script example_world))) = [Chdir ''/srv/quiz'']"
    by (simp add: dir)
  moreover from working_directory_set_once [of missing_directory_world] missing
  have "script missing_directory_world =
     (\<lparr>cwd = ''/home/user'', stdout = [], listening = None, browser = [], responses = [],
       trace = [Chdir ''/srv/quiz'']\<rparr>, Unhandled OSError)"
    by (simp add: dirs)
  ultimately show ?thesis using ok missing by simp
qed

text \<open>
  C10. The exit status is 0 exactly when the run reached the serve loop and Ctrl+C arrived
  there. When the first call to raise is one of the five prints or the browser launch,
  and it raises \<^verbatim>\<open>KeyboardInterrupt\<close>, then the socket had been bound, the serve loop is
  never entered, the exception is not handled, the exit status is not 0, and the stop
  notice is neither printed nor attempted.
\<close>

theorem only_serving_interrupt_is_clean:
  "(exits_zero (snd (script w)) \<longleftrightarrow>
      ServeForever \<in> set (trace (fst (script w))) \<and> Interrupt \<in> set (incoming w)) \<and>
   (first_fault w = Some (c, KeyboardInterrupt) \<and> ((\<exists>i. c = AtPrint i) \<or> c = AtOpen) \<longrightarrow>
      Bind '''' PORT \<in> set (trace (fst (script w))) \<and>
      ServeForever \<notin> set (trace (fst (script w))) \<and>
      snd (script w) = Unhandled KeyboardInterrupt \<and>
      \<not> exits_zero (snd (script w)) \<and>
      stopped_line \<notin> set (stdout (fst (script w))) \<and>
      Print stopped_line \<notin> set (trace (fst (script w))))"
proof (rule conjI)
  show "exits_zero (snd (script w)) \<longleftrightarrow>
      ServeForever \<in> set (trace (fst (script w))) \<and> Interrupt \<in> set (incoming w)"
    by (simp add: exits_zero_iff reaches_serving)
next
  show "first_fault w = Some (c, KeyboardInterrupt) \<and> ((\<exists>i. c = AtPrint i) \<or> c = AtOpen) \<longrightarrow>
      Bind '''' PORT \<in> set (trace (fst (script w))) \<and>
      ServeForever \<notin> set (trace (fst (script w))) \<and>
      snd (script w) = Unhandled KeyboardInterrupt \<and>
      \<not> exits_zero (snd (script w)) \<and>
      stopped_line \<notin> set (stdout (fst (script w))) \<and>
      Print stopped_line \<notin> set (trace (fst (script w)))"
  proof (rule impI)
    assume *: "first_fault w = Some (c, KeyboardInterrupt) \<and>
      ((\<exists>i. c = AtPrint i) \<or> c = AtOpen)"
    then have no_reach: "ServeForever \<notin> set (trace (fst (script w)))"
      by (simp add: reaches_serving)
    from * consider i where "first_fault w = Some (AtPrint i, KeyboardInterrupt)"
      | "first_fault w = Some (AtOpen, KeyboardInterrupt)"
      by auto
    then have "Bind '''' PORT \<in> set (trace (fst (script w))) \<and>
        snd (script w) = Unhandled KeyboardInterrupt \<and>
        \<not> exits_zero (snd (script w)) \<and>
        stopped_line \<notin> set (stdout (fst (script w))) \<and>
        Print stopped_line \<notin> set (trace (fst (script w)))"
    proof cases
      case 1
      from script_print_fails [OF this] stopped_line_fresh [of "script_dir w"] show ?thesis
        by (auto dest!: in_set_takeD)
    next
      case 2
      from script_open_fails [OF this] stopped_line_fresh [of "script_dir w"] show ?thesis
        by auto
    qed
    with no_reach show "Bind '''' PORT \<in> set (trace (fst (script w))) \<and>
        ServeForever \<notin> set (trace (fst (script w))) \<and>
        snd (script w) = Unhandled KeyboardInterrupt \<and>
        \<not> exits_zero (snd (script w)) \<and>
        stopped_line \<notin> set (stdout (fst (script w))) \<and>
        Print stopped_line \<notin> set (trace (fst (script w)))"
      by simp
  qed
qed

theorem only_serving_interrupt_is_clean_witness:
  "first_fault interrupted_startup_world = Some (AtPrint 2, KeyboardInterrupt) \<and>
   Bind '''' PORT \<in> set (trace (fst (script interrupted_startup_world))) \<and>
   ServeForever \<notin> set (trace (fst (script interrupted_startup_world))) \<and>
   snd (script interrupted_startup_world) = Unhandled KeyboardInterrupt \<and>
   \<not> exits_zero (snd (script interrupted_startup_world)) \<and>
   stopped_line \<notin> set (stdout (fst (script interrupted_startup_world))) \<and>
   Print stopped_line \<notin> set (trace (fst (script interrupted_startup_world)))"
proof -
  have first: "first_fault interrupted_startup_world = Some (AtPrint 2, KeyboardInterrupt)"
    by (simp add: first_fault_def startup_calls_def interrupted_startup_world_def)
  from only_serving_interrupt_is_clean [of interrupted_startup_world "AtPrint 2"] first
  show ?thesis by blast
qed

end
